theory Spec2Isabelle
  imports Main
begin

section \<open>tiny-slice: reducer, action creators and thunks\<close>

text \<open>
  The development embeds \<^verbatim>\<open>createTinySlice\<close> of tiny-slice: the reducer it builds from
  a map of named handlers, the action creators, and the thunk of an async action.

  Scope of the model.
  \<^item> Objects live in a heap and are addressed by references, because the reducer's
    contract is about object identity (\<^verbatim>\<open>{ ...state }\<close> allocates a new object).
  \<^item> \<^verbatim>\<open>options.actions\<close> is an ordinary object: a property read finds its own properties
    first and the members of \<^verbatim>\<open>Object.prototype\<close> after them.
  \<^item> With \<^verbatim>\<open>debug\<close> on, the code serialises values with \<^verbatim>\<open>JSON.stringify\<close>, which throws a
    \<^verbatim>\<open>TypeError\<close> on a circular structure and on a \<^verbatim>\<open>BigInt\<close>. The throw is modelled; the text
    written to the console is not.
  \<^item> The callbacks a slice is given (\<^verbatim>\<open>onPending\<close>, \<^verbatim>\<open>onSuccess\<close>, \<^verbatim>\<open>onError\<close> and the sync
    handlers) are heap transformers that return normally.
  \<^item> \<^verbatim>\<open>dispatch\<close>, as handed to a thunk, is an asynchronous function: a call to it has an
    effect on the world and returns a promise that the thunk does not await.
  \<^item> The module is strict code, as every ES module is: a function called without a
    receiver has \<^verbatim>\<open>this === undefined\<close>.
\<close>

subsection \<open>Values and the heap\<close>

text \<open>
  \<^verbatim>\<open>payload: any\<close> and the generic \<^verbatim>\<open>State\<close>: a value is a primitive, a reference to a heap
  object, or an object literal passed by value (\<open>Obj\<close>, used where nobody observes the
  identity of the literal, as for the payload \<^verbatim>\<open>{ error }\<close>). \<open>Num\<close> holds the numbers that
  are integers; the runs below stay within the safe integers.
\<close>

datatype val =
    Undefined
  | Null
  | Bool bool
  | Num int
  | BigInt int
  | Str string
  | Ref nat
  | Obj "(string \<times> val) list"

text \<open>An object is the list of its own enumerable properties, in insertion order.\<close>

type_synonym obj = "(string \<times> val) list"

text \<open>The heap: the object at address \<open>a\<close> is \<open>h ! a\<close>; addresses from \<open>length h\<close> on are free.\<close>

type_synonym heap = "obj list"


fun decimal :: "nat \<Rightarrow> string" where
  "decimal n =
     (if n < 10 then [''0123456789'' ! n]
      else decimal (n div 10) @ [''0123456789'' ! (n mod 10)])"

declare decimal.simps [simp del]

text \<open>
  The own enumerable properties that an object spread \<^verbatim>\<open>{ ...v }\<close> copies: the properties
  of an object, the indexed characters of a string, nothing for the other primitives.
\<close>

definition own_properties :: "heap \<Rightarrow> val \<Rightarrow> obj" where
  "own_properties h v =
     (case v of
        Ref a \<Rightarrow> (if a < length h then h ! a else [])
      | Obj ps \<Rightarrow> ps
      | Str s \<Rightarrow> zip (map decimal [0..<length s]) (map (\<lambda>c. Str [c]) s)
      | _ \<Rightarrow> [])"

text \<open>\<^verbatim>\<open>{ ...state }\<close>: a new object at the first free address, with the properties copied.\<close>

definition spread :: "val \<Rightarrow> heap \<Rightarrow> val \<times> heap" where
  "spread v h = (Ref (length h), h @ [own_properties h v])"

text \<open>Reading and writing a property of an object, as the handlers of the examples do.\<close>

definition get_property :: "obj \<Rightarrow> string \<Rightarrow> val" where
  "get_property ob k = (case map_of ob k of Some v \<Rightarrow> v | None \<Rightarrow> Undefined)"

fun set_property :: "string \<Rightarrow> val \<Rightarrow> obj \<Rightarrow> obj" where
  "set_property k v [] = [(k, v)]"
| "set_property k v (p # ps) = (if fst p = k then (k, v) # ps else p # set_property k v ps)"

definition read_field :: "heap \<Rightarrow> val \<Rightarrow> string \<Rightarrow> val" where
  "read_field h r k =
     (case r of
        Ref a \<Rightarrow> (if a < length h then get_property (h ! a) k else Undefined)
      | Obj ps \<Rightarrow> get_property ps k
      | _ \<Rightarrow> Undefined)"

definition write_field :: "val \<Rightarrow> string \<Rightarrow> val \<Rightarrow> heap \<Rightarrow> heap" where
  "write_field r k v h =
     (case r of Ref a \<Rightarrow> (if a < length h then h[a := set_property k v (h ! a)] else h)
      | _ \<Rightarrow> h)"

subsection \<open>What can throw\<close>

text \<open>
  How a call ends: it returns a value or it throws one. The \<^verbatim>\<open>TypeError\<close> of the runtime is
  one value; its message depends on the engine and is left out.
\<close>

datatype completion = Returned val | Thrown val

definition TypeError :: val where
  "TypeError = Obj [(''name'', Str ''TypeError'')]"

text \<open>
  \<^verbatim>\<open>JSON.stringify(v, null, 2)\<close> throws a \<^verbatim>\<open>TypeError\<close> when it meets a \<^verbatim>\<open>BigInt\<close>, and when it
  meets an object that it is already serialising (a circular structure); on every other
  value of the model it returns. \<open>serialisable h v\<close> says that it returns. The walk keeps
  the stack of the objects it is inside of, as the built-in does; it ends because every
  step down puts one more allocated address on the stack.
\<close>

fun has_bigint :: "val \<Rightarrow> bool" where
  "has_bigint (BigInt n) = True"
| "has_bigint (Obj ps) = list_ex (\<lambda>p. has_bigint (snd p)) ps"
| "has_bigint _ = False"

fun refs_of :: "val \<Rightarrow> nat list" where
  "refs_of (Ref a) = [a]"
| "refs_of (Obj ps) = concat (map (\<lambda>p. refs_of (snd p)) ps)"
| "refs_of _ = []"

function serialisable_object :: "heap \<Rightarrow> nat list \<Rightarrow> nat \<Rightarrow> bool" where
  "serialisable_object h stack a =
     (if a < length h then
        (if a \<in> set stack then False
         else list_all
                (\<lambda>p. \<not> has_bigint (snd p)
                      \<and> list_all (serialisable_object h (a # stack)) (refs_of (snd p)))
                (h ! a))
      else True)"
  by pat_completeness auto
termination
proof (relation "measure (\<lambda>(h, stack, a). length h - card (set stack \<inter> {..<length h}))")
  show "wf (measure (\<lambda>(h, stack, a). length h - card (set stack \<inter> {..<length h})))"
    by simp
next
  fix h :: heap and stack :: "nat list" and a :: nat and p :: "string \<times> val" and b :: nat
  assume a: "a < length h" and fresh: "a \<notin> set stack"
  have sub: "insert a (set stack \<inter> {..<length h}) \<subseteq> {..<length h}"
    using a by auto
  have "card (insert a (set stack \<inter> {..<length h})) \<le> card {..<length h}"
    by (rule card_mono) (use sub in auto)
  moreover have "card (insert a (set stack \<inter> {..<length h})) =
      Suc (card (set stack \<inter> {..<length h}))"
    using fresh by simp
  moreover have "set (a # stack) \<inter> {..<length h} = insert a (set stack \<inter> {..<length h})"
    using a by auto
  ultimately show "((h, a # stack, b), (h, stack, a))
      \<in> measure (\<lambda>(h, stack, a). length h - card (set stack \<inter> {..<length h}))"
    by simp
qed

declare serialisable_object.simps [simp del]

definition serialisable :: "heap \<Rightarrow> val \<Rightarrow> bool" where
  "serialisable h v = (\<not> has_bigint v \<and> list_all (serialisable_object h []) (refs_of v))"

subsection \<open>Types of the source\<close>

text \<open>\<^verbatim>\<open>{ type: string; payload: any }\<close>, the parameter of the reducer.\<close>

record action =
  type :: string
  payload :: val

text \<open>
  The world a thunk runs in: the heap, and whatever else a dispatcher keeps (the
  extension of the record).
\<close>

record env =
  heap :: heap

text \<open>\<^verbatim>\<open>AsyncActionHelpers\<close>.\<close>

record 'z helpers =
  getState :: "'z env_scheme \<Rightarrow> val"
  dispatch :: "action \<Rightarrow> 'z env_scheme \<Rightarrow> 'z env_scheme"

text \<open>
  How the promise of an async function ends: it resolves with a result, it rejects with
  (or the function throws) an error, or it never settles.
\<close>

datatype settled = Fulfilled val | Rejected val | Unsettled

text \<open>\<^verbatim>\<open>ActionReducer\<close>: \<^verbatim>\<open>(state, payload) => void\<close>, mutating the object it is given.\<close>

type_synonym handler = "val \<Rightarrow> val \<Rightarrow> heap \<Rightarrow> heap"

text \<open>
  The bundle of optional callbacks that \<^verbatim>\<open>createAsyncAction\<close> takes, and
  \<^verbatim>\<open>AsyncActionReducer\<close>, which adds the async function \<^verbatim>\<open>action\<close> to it. A callback that is
  absent is \<open>None\<close>.
\<close>

record handlers =
  onSuccess :: "handler option"
  onPending :: "(val \<Rightarrow> heap \<Rightarrow> heap) option"
  onError :: "handler option"

record 'z async_action_reducer = handlers +
  action :: "val \<Rightarrow> 'z helpers \<Rightarrow> 'z env_scheme \<Rightarrow> settled \<times> 'z env_scheme"

text \<open>
  An entry of \<^verbatim>\<open>ActionReducers\<close>. The source tells the two shapes apart with
  \<^verbatim>\<open>'action' in actionReducer\<close>; here the constructor is the tag.
\<close>

datatype 'z action_reducer =
    Sync handler
  | Async "'z async_action_reducer"

record 'z slice_options =
  initialState :: val
  actions :: "string \<rightharpoonup> 'z action_reducer"
  debug :: bool

text \<open>
  What a call did: what it came to, the world it left, and the actions it passed to
  \<^verbatim>\<open>dispatch\<close> itself, in call order.
\<close>

record ('a, 'w) run =
  outcome :: 'a
  world :: 'w
  dispatched :: "action list"


text \<open>\<^verbatim>\<open>createAsyncAction(action, handlers)\<close> is \<^verbatim>\<open>{ action, ...handlers }\<close>.\<close>

definition createAsyncAction ::
  "(val \<Rightarrow> 'z helpers \<Rightarrow> 'z env_scheme \<Rightarrow> settled \<times> 'z env_scheme) \<Rightarrow> handlers
     \<Rightarrow> 'z async_action_reducer" where
  "createAsyncAction act hs =
     \<lparr>onSuccess = onSuccess hs, onPending = onPending hs, onError = onError hs,
      action = act\<rparr>"

subsection \<open>Reading a property of the registered actions\<close>

text \<open>
  The members of \<^verbatim>\<open>Object.prototype\<close>, by what the reducer's call
  \<^verbatim>\<open>actionReducer(newState, action.payload)\<close> does with them. Called without a receiver,
  \<^verbatim>\<open>toString\<close> returns a string and \<^verbatim>\<open>constructor\<close> (that is \<^verbatim>\<open>Object\<close>) returns its
  argument; the other methods convert the missing receiver to an object and throw a
  \<^verbatim>\<open>TypeError\<close>; \<^verbatim>\<open>__proto__\<close> reads as \<^verbatim>\<open>Object.prototype\<close> itself, which is not a function,
  so the call throws a \<^verbatim>\<open>TypeError\<close>. None of them has a property \<^verbatim>\<open>action\<close>, and none
  writes to the heap.
\<close>

datatype builtin = Returning | Raising

definition Object_prototype :: "string \<rightharpoonup> builtin" where
  "Object_prototype k =
     (if k \<in> set [''toString'', ''constructor''] then Some Returning
      else if k \<in> set [''hasOwnProperty'', ''isPrototypeOf'', ''propertyIsEnumerable'',
                         ''toLocaleString'', ''valueOf'', ''__proto__'', ''__defineGetter__'',
                         ''__defineSetter__'', ''__lookupGetter__'', ''__lookupSetter__'']
      then Some Raising
      else None)"

text \<open>
  What \<^verbatim>\<open>options.actions[key]\<close> evaluates to: the registered entry when the name is
  registered, else the inherited member of that name, else \<^verbatim>\<open>undefined\<close>.
\<close>

datatype 'z property = Own "'z action_reducer" | Inherited builtin

definition lookup_action :: "'z slice_options \<Rightarrow> string \<Rightarrow> 'z property option" where
  "lookup_action options k =
     (case actions options k of
        Some r \<Rightarrow> Some (Own r)
      | None \<Rightarrow> map_option Inherited (Object_prototype k))"

subsection \<open>The reducer\<close>

text \<open>
  \<^verbatim>\<open>String.prototype.split\<close> with a one-character separator: every occurrence of the
  separator ends a piece, and the result is never empty.
\<close>

fun split :: "char \<Rightarrow> string \<Rightarrow> string list" where
  "split c [] = [[]]"
| "split c (x # xs) =
     (if x = c then [] # split c xs
      else (case split c xs of [] \<Rightarrow> [[x]] | p # ps \<Rightarrow> (x # p) # ps))"

text \<open>
  \<^verbatim>\<open>const [actionType, status] = ...\<close>: the first two elements of the array, \<open>None\<close> for
  \<^verbatim>\<open>undefined\<close>; the other elements are dropped.
\<close>

definition destructure :: "string list \<Rightarrow> string option \<times> string option" where
  "destructure ps =
     (case ps of
        [] \<Rightarrow> (None, None)
      | [p] \<Rightarrow> (Some p, None)
      | p # q # _ \<Rightarrow> (Some p, Some q))"

definition parse_type :: "string \<Rightarrow> string option \<times> string option" where
  "parse_type t = destructure (split CHR ''/'' t)"

text \<open>The property key that \<^verbatim>\<open>options.actions[actionType]\<close> reads.\<close>

definition property_key :: "string option \<Rightarrow> string" where
  "property_key k = (case k of None \<Rightarrow> ''undefined'' | Some s \<Rightarrow> s)"

text \<open>
  The reducer in three layers. \<open>apply_action_reducer\<close> is the \<^verbatim>\<open>if\<close> / \<^verbatim>\<open>else if\<close> on the value
  that was looked up: \<open>newState\<close> starts as \<open>state\<close> and becomes the copy only in the branches
  that run a callback; an inherited member is not async-shaped and is truthy, so it takes the
  branch of the sync handlers: the state is copied and the member is called.
  \<open>reducer_body\<close> puts the two \<^verbatim>\<open>debug\<close> blocks around it: the first serialises the payload
  and the state, the second the new state. \<open>reducer\<close> parses the type and looks the value
  up (the first two statements of the source).
\<close>

definition apply_action_reducer ::
  "'z property option \<Rightarrow> string option \<Rightarrow> val \<Rightarrow> 'a action_scheme \<Rightarrow> heap \<Rightarrow> completion \<times> heap" where
  "apply_action_reducer actionReducer status state a h =
     (case actionReducer of
        Some (Own (Async ar)) \<Rightarrow>
          (if status = Some ''pending'' then
             (case onPending ar of
                Some f \<Rightarrow>
                  (let (newState, h') = spread state h in (Returned newState, f newState h'))
              | None \<Rightarrow> (Returned state, h))
           else if status = Some ''fulfilled'' then
             (case onSuccess ar of
                Some f \<Rightarrow>
                  (let (newState, h') = spread state h
                   in (Returned newState, f newState (payload a) h'))
              | None \<Rightarrow> (Returned state, h))
           else if status = Some ''rejected'' then
             (case onError ar of
                Some f \<Rightarrow>
                  (let (newState, h') = spread state h
                   in (Returned newState, f newState (payload a) h'))
              | None \<Rightarrow> (Returned state, h))
           else (Returned state, h))
      | Some (Own (Sync f)) \<Rightarrow>
          (let (newState, h') = spread state h in (Returned newState, f newState (payload a) h'))
      | Some (Inherited b) \<Rightarrow>
          (let (newState, h') = spread state h
           in case b of
                Returning \<Rightarrow> (Returned newState, h')
              | Raising \<Rightarrow> (Thrown TypeError, h'))
      | None \<Rightarrow> (Returned state, h))"

definition reducer_body ::
  "'z slice_options \<Rightarrow> 'z property option \<Rightarrow> string option \<Rightarrow> val \<Rightarrow> 'a action_scheme \<Rightarrow> heap
     \<Rightarrow> completion \<times> heap" where
  "reducer_body options actionReducer status state a h =
     (if debug options \<and> \<not> (serialisable h (payload a) \<and> serialisable h state)
      then (Thrown TypeError, h)
      else
        (let (c, h') = apply_action_reducer actionReducer status state a h
         in case c of
              Thrown e \<Rightarrow> (Thrown e, h')
            | Returned newState \<Rightarrow>
                (if debug options \<and> \<not> serialisable h' newState then (Thrown TypeError, h')
                 else (Returned newState, h'))))"

definition reducer ::
  "'z slice_options \<Rightarrow> val \<Rightarrow> 'a action_scheme \<Rightarrow> heap \<Rightarrow> completion \<times> heap" where
  "reducer options state a h =
     (let (actionType, status) = parse_type (type a);
          actionReducer = lookup_action options (property_key actionType)
      in reducer_body options actionReducer status state a h)"

subsection \<open>Action creators and thunks\<close>

text \<open>The lifecycle actions a thunk synthesizes.\<close>

definition pending_action :: "string \<Rightarrow> action" where
  "pending_action actionKey = \<lparr>type = actionKey @ ''/pending'', payload = Null\<rparr>"

definition fulfilled_action :: "string \<Rightarrow> val \<Rightarrow> action" where
  "fulfilled_action actionKey result = \<lparr>type = actionKey @ ''/fulfilled'', payload = result\<rparr>"

definition rejected_action :: "string \<Rightarrow> val \<Rightarrow> action" where
  "rejected_action actionKey error =
     \<lparr>type = actionKey @ ''/rejected'', payload = Obj [(''error'', error)]\<rparr>"

text \<open>
  The \<^verbatim>\<open>catch\<close> block of the thunk, entered with the thrown \<open>error\<close>, the world \<open>w\<close> and the
  dispatches \<open>ds\<close> made so far: it dispatches the rejected action when \<^verbatim>\<open>onError\<close> is
  configured and throws \<open>error\<close> again.
\<close>

definition catch_block ::
  "string \<Rightarrow> 'z async_action_reducer \<Rightarrow> (action \<Rightarrow> 'z env_scheme \<Rightarrow> 'z env_scheme) \<Rightarrow> val
     \<Rightarrow> 'z env_scheme \<Rightarrow> action list \<Rightarrow> (settled, 'z env_scheme) run" where
  "catch_block actionKey actionReducer disp error w ds =
     (case onError actionReducer of
        Some _ \<Rightarrow>
          \<lparr>outcome = Rejected error,
           world = disp (rejected_action actionKey error) w,
           dispatched = ds @ [rejected_action actionKey error]\<rparr>
      | None \<Rightarrow> \<lparr>outcome = Rejected error, world = w, dispatched = ds\<rparr>)"

text \<open>
  The body of \<^verbatim>\<open>thunk\<close>, all of it inside \<^verbatim>\<open>try\<close>. With \<^verbatim>\<open>debug\<close> on it first serialises the
  payload and \<^verbatim>\<open>getState()\<close>; then comes the optional pending dispatch, the call of the
  async function, the optional fulfilled dispatch and, with \<^verbatim>\<open>debug\<close> on, the serialisation
  of the result. Whatever is thrown on the way, by the async function or by a
  serialisation, goes to the \<^verbatim>\<open>catch\<close> block.
\<close>

definition thunk_body ::
  "'z slice_options \<Rightarrow> string \<Rightarrow> 'z async_action_reducer \<Rightarrow> val
     \<Rightarrow> (action \<Rightarrow> 'z env_scheme \<Rightarrow> 'z env_scheme) \<Rightarrow> ('z env_scheme \<Rightarrow> val) \<Rightarrow> 'z env_scheme
     \<Rightarrow> (settled, 'z env_scheme) run" where
  "thunk_body options actionKey actionReducer pl disp getSt w =
     (if debug options \<and> \<not> (serialisable (heap w) pl \<and> serialisable (heap w) (getSt w))
      then catch_block actionKey actionReducer disp TypeError w []
      else
        (let (w1, d1) =
               (case onPending actionReducer of
                  Some _ \<Rightarrow> (disp (pending_action actionKey) w, [pending_action actionKey])
                | None \<Rightarrow> (w, []));
             (r, w2) = action actionReducer pl \<lparr>getState = getSt, dispatch = disp\<rparr> w1
         in case r of
              Fulfilled result \<Rightarrow>
                (let (w3, d3) =
                       (case onSuccess actionReducer of
                          Some _ \<Rightarrow>
                            (disp (fulfilled_action actionKey result) w2,
                             d1 @ [fulfilled_action actionKey result])
                        | None \<Rightarrow> (w2, d1))
                 in if debug options \<and> \<not> serialisable (heap w3) result
                    then catch_block actionKey actionReducer disp TypeError w3 d3
                    else \<lparr>outcome = Fulfilled result, world = w3, dispatched = d3\<rparr>)
            | Rejected error \<Rightarrow> catch_block actionKey actionReducer disp error w2 d1
            | Unsettled \<Rightarrow> \<lparr>outcome = Unsettled, world = w2, dispatched = d1\<rparr>))"


text \<open>The types of the two terminal lifecycle actions of a name.\<close>

definition terminal_type :: "string \<Rightarrow> action \<Rightarrow> bool" where
  "terminal_type actionKey x =
     (type x = actionKey @ ''/fulfilled'' \<or> type x = actionKey @ ''/rejected'')"

subsection \<open>Reading an action type\<close>

text \<open>
  The part of a type before its first \<^verbatim>\<open>/\<close> (the whole type when it has none), and the
  entire remainder after that first \<^verbatim>\<open>/\<close>. They are written with the list functions, not
  with \<open>split\<close>, to state what the parsing of the reducer amounts to.
\<close>

definition before_slash :: "string \<Rightarrow> string" where
  "before_slash t = takeWhile (\<lambda>c. c \<noteq> CHR ''/'') t"

definition after_slash :: "string \<Rightarrow> string" where
  "after_slash t = tl (dropWhile (\<lambda>c. c \<noteq> CHR ''/'') t)"

subsection \<open>The slices of the test suite\<close>

text \<open>
  The state of \<^verbatim>\<open>index.test.ts\<close>, \<^verbatim>\<open>{ count: 0, loading: false, error: null }\<close>, at
  address 0, and the handlers of its three slices.

  \<open>add\<close> is \<^verbatim>\<open>+\<close> where both operands are numbers, \<^verbatim>\<open>null\<close> or booleans and the operands
  and the sum are safe integers (below \<open>2^53\<close> in size). On other operands \<^verbatim>\<open>+\<close> gives a
  string, \<^verbatim>\<open>NaN\<close>, a rounded double or a \<^verbatim>\<open>BigInt\<close>, or throws; \<open>add\<close> gives
  \<open>Undefined\<close> there, which stands for none of these, and no run below reaches it.
\<close>

definition test_heap :: heap where
  "test_heap = [[(''count'', Num 0), (''loading'', Bool False), (''error'', Null)]]"

definition to_number :: "val \<Rightarrow> int option" where
  "to_number v =
     (case v of
        Num n \<Rightarrow> Some n
      | Null \<Rightarrow> Some 0
      | Bool b \<Rightarrow> Some (if b then 1 else 0)
      | _ \<Rightarrow> None)"

definition safe_integer :: "int \<Rightarrow> bool" where
  "safe_integer n = (- 9007199254740991 \<le> n \<and> n \<le> 9007199254740991)"

definition add :: "val \<Rightarrow> val \<Rightarrow> val" where
  "add x y =
     (case (to_number x, to_number y) of
        (Some m, Some n) \<Rightarrow>
          (if safe_integer m \<and> safe_integer n \<and> safe_integer (m + n) then Num (m + n)
           else Undefined)
      | _ \<Rightarrow> Undefined)"


definition reset :: handler where
  "reset state pl h = write_field state ''count'' (Num 0) h"


definition async_increment ::
  "val \<Rightarrow> 'z helpers \<Rightarrow> 'z env_scheme \<Rightarrow> settled \<times> 'z env_scheme" where
  "async_increment pl hs w = (Fulfilled pl, w)"

definition set_loading :: "val \<Rightarrow> heap \<Rightarrow> heap" where
  "set_loading state h = write_field state ''loading'' (Bool True) h"

definition add_result :: handler where
  "add_result state pl h =
     write_field state ''loading'' (Bool False)
       (write_field state ''count'' (add (read_field h state ''count'') pl) h)"

definition record_error :: handler where
  "record_error state pl h =
     write_field state ''loading'' (Bool False)
       (write_field state ''error'' (read_field h (read_field h pl ''error'') ''message'') h)"

definition asyncIncrement :: "'z async_action_reducer" where
  "asyncIncrement =
     createAsyncAction async_increment
       \<lparr>onSuccess = Some add_result, onPending = Some set_loading,
        onError = Some record_error\<rparr>"

definition async_options :: "'z slice_options" where
  "async_options =
     \<lparr>initialState = Ref 0, actions = [''asyncIncrement'' \<mapsto> Async asyncIncrement],
      debug = False\<rparr>"

definition test_error :: val where
  "test_error = Obj [(''message'', Str ''Test error'')]"

definition failing_action ::
  "val \<Rightarrow> 'z helpers \<Rightarrow> 'z env_scheme \<Rightarrow> settled \<times> 'z env_scheme" where
  "failing_action pl hs w = (Rejected test_error, w)"

definition failingAction :: "'z async_action_reducer" where
  "failingAction =
     createAsyncAction failing_action
       \<lparr>onSuccess = None, onPending = Some set_loading, onError = Some record_error\<rparr>"

definition error_options :: "'z slice_options" where
  "error_options =
     \<lparr>initialState = Ref 0, actions = [''failingAction'' \<mapsto> Async failingAction],
      debug = False\<rparr>"

text \<open>
  A store for running thunks, one that a thunk can be handed: the heap and the current
  state. Its dispatcher applies the reducer of a slice to a plain action at once and
  keeps the current state when the reducer throws (the dispatcher is asynchronous, so
  the thunk, which does not await it, never sees that error); its state reader returns
  the current state.
\<close>

record store = env +
  current :: val

definition store_dispatch :: "unit store_ext slice_options \<Rightarrow> action \<Rightarrow> store \<Rightarrow> store" where
  "store_dispatch options a w =
     (case reducer options (current w) a (heap w) of
        (Returned newState, h') \<Rightarrow> \<lparr>heap = h', current = newState\<rparr>
      | (Thrown e, h') \<Rightarrow> \<lparr>heap = h', current = current w\<rparr>)"

definition store_state :: "store \<Rightarrow> val" where
  "store_state w = current w"

definition test_store :: store where
  "test_store = \<lparr>heap = test_heap, current = Ref 0\<rparr>"

text \<open>
  Further entries: an async action with no callback at all; one whose result is a
  \<^verbatim>\<open>BigInt\<close>; a sync action whose name has a \<^verbatim>\<open>/\<close>, and one whose name starts with the name
  of a member of \<^verbatim>\<open>Object.prototype\<close>; a handler that writes into an object nested in the
  state; a state that refers to itself.
\<close>

definition ping :: "'z async_action_reducer" where
  "ping =
     createAsyncAction async_increment
       \<lparr>onSuccess = None, onPending = None, onError = None\<rparr>"

definition silent_options :: "'z slice_options" where
  "silent_options =
     \<lparr>initialState = Ref 0, actions = [''ping'' \<mapsto> Async ping], debug = False\<rparr>"

definition big_result ::
  "val \<Rightarrow> 'z helpers \<Rightarrow> 'z env_scheme \<Rightarrow> settled \<times> 'z env_scheme" where
  "big_result pl hs w = (Fulfilled (BigInt 1), w)"

definition countBig :: "'z async_action_reducer" where
  "countBig =
     createAsyncAction big_result
       \<lparr>onSuccess = Some reset, onPending = Some set_loading, onError = Some reset\<rparr>"

definition big_options :: "'z slice_options" where
  "big_options =
     \<lparr>initialState = Ref 0, actions = [''countBig'' \<mapsto> Async countBig], debug = True\<rparr>"



definition nested_heap :: heap where
  "nested_heap = [[(''x'', Num 0)], [(''nested'', Ref 0)]]"

definition touch_nested :: handler where
  "touch_nested state pl h = write_field (read_field h state ''nested'') ''x'' pl h"

definition nested_options :: "'z slice_options" where
  "nested_options =
     \<lparr>initialState = Ref 1, actions = [''touch'' \<mapsto> Sync touch_nested], debug = False\<rparr>"





section \<open>Properties\<close>

subsection \<open>Parsing the type\<close>


lemma before_after_slash:
  "t = before_slash t @ (if CHR ''/'' \<in> set t then CHR ''/'' # after_slash t else [])"
  unfolding before_slash_def after_slash_def by (induction t) auto

lemma split_not_Nil: "split c s \<noteq> []"
  by (induction s) (auto split: list.splits)

lemma split_unfold:
  "split c s =
     takeWhile (\<lambda>x. x \<noteq> c) s #
       (if c \<in> set s then split c (tl (dropWhile (\<lambda>x. x \<noteq> c) s)) else [])"
proof (induction s)
  case Nil
  show ?case by simp
next
  case (Cons x xs)
  show ?case
  proof (cases "x = c")
    case True
    then show ?thesis by simp
  next
    case False
    obtain p ps where ps: "split c xs = p # ps"
      using split_not_Nil [of c xs] by (cases "split c xs") auto
    with Cons False show ?thesis by (auto split: if_splits)
  qed
qed

lemma parse_type_segments:
  "parse_type t =
     (Some (before_slash t),
      if CHR ''/'' \<in> set t then Some (before_slash (after_slash t)) else None)"
proof (cases "CHR ''/'' \<in> set t")
  case False
  then show ?thesis
    unfolding parse_type_def destructure_def before_slash_def
    by (subst split_unfold) simp
next
  case True
  have "split CHR ''/'' t =
          before_slash t # split CHR ''/'' (after_slash t)"
    unfolding before_slash_def after_slash_def using True by (subst split_unfold) simp
  also have "split CHR ''/'' (after_slash t) =
          before_slash (after_slash t) #
            (if CHR ''/'' \<in> set (after_slash t)
             then split CHR ''/'' (after_slash (after_slash t)) else [])"
    unfolding before_slash_def after_slash_def by (subst split_unfold) simp
  finally show ?thesis
    using True unfolding parse_type_def destructure_def by simp
qed

lemma reducer_lookup:
  "reducer options state a h =
     reducer_body options (lookup_action options (before_slash (type a)))
       (snd (parse_type (type a))) state a h"
  unfolding reducer_def by (simp add: parse_type_segments property_key_def)



subsection \<open>The copy\<close>


text \<open>
  The draft holds the very values of the state's properties: a reference stored in a
  property of the state is shared by the draft, not copied.
\<close>

lemma draft_shares_fields:
  assumes "state = Ref a" and "a < length h" and "spread state h = (draft, h')"
  shows "read_field h' draft k = read_field h state k"
  using assms by (auto simp: spread_def read_field_def own_properties_def)

text \<open>
  A write to a property of the draft changes the draft only: every object that existed
  before the copy is as it was.
\<close>

lemma write_field_draft:
  assumes "spread state h = (draft, h')"
  shows "take (length h) (write_field draft k v h') = h"
    and "\<exists>ob. write_field draft k v h' = h @ [ob]"
  using assms by (auto simp: spread_def write_field_def)

subsection \<open>The two debug blocks of the reducer\<close>





lemmas evaluate =
  reducer_def reducer_body_def parse_type_def destructure_def property_key_def
  lookup_action_def Object_prototype_def apply_action_reducer_def spread_def
  own_properties_def write_field_def read_field_def get_property_def
  serialisable_def serialisable_object.simps TypeError_def
  add_def to_number_def safe_integer_def




subsection \<open>Claims about the reducer\<close>










text \<open>
  C7, as the code has it. \<^verbatim>\<open>split('/')\<close> cuts the type at every \<^verbatim>\<open>/\<close> and the
  destructuring keeps the first two pieces: the action name is the part before the first
  \<^verbatim>\<open>/\<close>, the status is the part between the first and the second \<^verbatim>\<open>/\<close> (all that follows
  the first \<^verbatim>\<open>/\<close> when there is no second one, and undefined when the type has no \<^verbatim>\<open>/\<close>);
  what follows a second \<^verbatim>\<open>/\<close> is dropped. The handler is looked up under the action name:
  the reducer reads the property of that name, which is the handler registered under it
  when there is one.
\<close>

theorem reducer_parses_two_pieces:
  "parse_type (type a) =
     (Some (before_slash (type a)),
      if CHR ''/'' \<in> set (type a) then Some (before_slash (after_slash (type a))) else None)
   \<and> reducer options state a h =
       reducer_body options (lookup_action options (before_slash (type a)))
         (snd (parse_type (type a))) state a h
   \<and> lookup_action options (before_slash (type a)) =
       (case actions options (before_slash (type a)) of
          Some r \<Rightarrow> Some (Own r)
        | None \<Rightarrow> map_option Inherited (Object_prototype (before_slash (type a))))"
proof (intro conjI)
  show "parse_type (type a) =
     (Some (before_slash (type a)),
      if CHR ''/'' \<in> set (type a) then Some (before_slash (after_slash (type a))) else None)"
    by (rule parse_type_segments)
  show "reducer options state a h =
       reducer_body options (lookup_action options (before_slash (type a)))
         (snd (parse_type (type a))) state a h"
    by (rule reducer_lookup)
  show "lookup_action options (before_slash (type a)) =
       (case actions options (before_slash (type a)) of
          Some r \<Rightarrow> Some (Own r)
        | None \<Rightarrow> map_option Inherited (Object_prototype (before_slash (type a))))"
    by (simp add: lookup_action_def)
qed

text \<open>
  C7 as stated fails: for the type \<^verbatim>\<open>asyncIncrement/pending/x\<close> the status is \<^verbatim>\<open>pending\<close>,
  not the remainder \<^verbatim>\<open>pending/x\<close>, and the reducer runs \<^verbatim>\<open>onPending\<close>, where the status
  \<^verbatim>\<open>pending/x\<close> would have left the state alone.
\<close>

theorem status_is_not_the_remainder:
  "snd (parse_type ''asyncIncrement/pending/x'') = Some ''pending''
   \<and> after_slash ''asyncIncrement/pending/x'' = ''pending/x''
   \<and> snd (parse_type ''asyncIncrement/pending/x'')
       \<noteq> Some (after_slash ''asyncIncrement/pending/x'')
   \<and> reducer (async_options :: unit slice_options) (Ref 0)
         \<lparr>type = ''asyncIncrement/pending/x'', payload = Null\<rparr> test_heap =
       (Returned (Ref 1),
        [[(''count'', Num 0), (''loading'', Bool False), (''error'', Null)],
         [(''count'', Num 0), (''loading'', Bool True), (''error'', Null)]])
   \<and> reducer_body (async_options :: unit slice_options)
         (lookup_action (async_options :: unit slice_options)
            (before_slash ''asyncIncrement/pending/x''))
         (Some (after_slash ''asyncIncrement/pending/x'')) (Ref 0)
         \<lparr>type = ''asyncIncrement/pending/x'', payload = Null\<rparr> test_heap =
       (Returned (Ref 0), test_heap)"
  by (simp add: parse_type_def destructure_def after_slash_def before_slash_def reducer_def
      reducer_body_def lookup_action_def property_key_def apply_action_reducer_def
      async_options_def asyncIncrement_def createAsyncAction_def spread_def
      own_properties_def test_heap_def set_loading_def write_field_def)




text \<open>
  C9. The copy is one level deep. The state at address 1 holds, in its field \<^verbatim>\<open>nested\<close>, a
  reference to the object at address 0; the handler \<open>touch_nested\<close> writes
  \<^verbatim>\<open>state.nested.x = payload\<close> through the draft it is given. After the reducer, the
  object reached from the previous state reference as \<^verbatim>\<open>nested.x\<close> has changed from 0 to 1,
  while the own properties of the previous state object are what they were.
\<close>

theorem shallow_copy_shares_nested_objects:
  "actions (nested_options :: unit slice_options) (before_slash ''touch'') = Some (Sync touch_nested)
   \<and> fst (reducer (nested_options :: unit slice_options) (Ref 1)
          \<lparr>type = ''touch'', payload = Num 1\<rparr> nested_heap) = Returned (Ref 2)
   \<and> read_field nested_heap (read_field nested_heap (Ref 1) ''nested'') ''x'' = Num 0
   \<and> read_field
         (snd (reducer (nested_options :: unit slice_options) (Ref 1)
            \<lparr>type = ''touch'', payload = Num 1\<rparr> nested_heap))
         (read_field
            (snd (reducer (nested_options :: unit slice_options) (Ref 1)
               \<lparr>type = ''touch'', payload = Num 1\<rparr> nested_heap))
            (Ref 1) ''nested'') ''x'' = Num 1
   \<and> own_properties
         (snd (reducer (nested_options :: unit slice_options) (Ref 1)
            \<lparr>type = ''touch'', payload = Num 1\<rparr> nested_heap)) (Ref 1) =
       own_properties nested_heap (Ref 1)
   \<and> snd (reducer (nested_options :: unit slice_options) (Ref 1)
          \<lparr>type = ''touch'', payload = Num 1\<rparr> nested_heap) =
       [[(''x'', Num 1)], [(''nested'', Ref 0)], [(''nested'', Ref 0)]]"
proof -
  have "reducer (nested_options :: unit slice_options) (Ref 1)
          \<lparr>type = ''touch'', payload = Num 1\<rparr> nested_heap =
        (Returned (Ref 2), [[(''x'', Num 1)], [(''nested'', Ref 0)], [(''nested'', Ref 0)]])"
    by (simp add: reducer_def reducer_body_def parse_type_def destructure_def property_key_def
        lookup_action_def apply_action_reducer_def nested_options_def spread_def
        own_properties_def nested_heap_def touch_nested_def write_field_def read_field_def
        get_property_def)
  then show ?thesis
    by (simp add: nested_options_def before_slash_def nested_heap_def read_field_def
        get_property_def own_properties_def)
qed

subsection \<open>Claims about the action creators\<close>



subsection \<open>Claims about the thunk\<close>

text \<open>
  One invocation of the thunk, by how far it gets. The async function is called when
  \<^verbatim>\<open>debug\<close> is off, or when the payload and the current state serialise; it starts in the
  world \<open>w\<close> when \<^verbatim>\<open>onPending\<close> is not configured, and in the world after the pending
  dispatch, \<open>disp (pending_action actionKey) w\<close>, when it is.
\<close>

lemma catch_block_run:
  "catch_block actionKey ar disp error w ds =
     \<lparr>outcome = Rejected error,
      world = (if onError ar = None then w else disp (rejected_action actionKey error) w),
      dispatched = ds @ (if onError ar = None then [] else [rejected_action actionKey error])\<rparr>"
  by (cases "onError ar") (simp_all add: catch_block_def)

lemma thunk_body_not_started:
  assumes "debug options"
    and "\<not> (serialisable (heap w) pl \<and> serialisable (heap w) (getSt w))"
  shows "thunk_body options actionKey ar pl disp getSt w =
     catch_block actionKey ar disp TypeError w []"
  using assms by (simp add: thunk_body_def)

lemma thunk_body_rejected:
  assumes "debug options \<longrightarrow> serialisable (heap w) pl \<and> serialisable (heap w) (getSt w)"
    and "action ar pl \<lparr>getState = getSt, dispatch = disp\<rparr>
             (if onPending ar = None then w else disp (pending_action actionKey) w) =
           (Rejected error, w2)"
  shows "thunk_body options actionKey ar pl disp getSt w =
     \<lparr>outcome = Rejected error,
      world = (if onError ar = None then w2 else disp (rejected_action actionKey error) w2),
      dispatched =
        (if onPending ar = None then [] else [pending_action actionKey]) @
        (if onError ar = None then [] else [rejected_action actionKey error])\<rparr>"
proof (cases "onPending ar")
  case None
  with assms show ?thesis
    by (auto simp: thunk_body_def catch_block_run)
next
  case (Some f)
  with assms show ?thesis
    by (auto simp: thunk_body_def catch_block_run)
qed

lemma thunk_body_resolved:
  assumes "debug options \<longrightarrow> serialisable (heap w) pl \<and> serialisable (heap w) (getSt w)"
    and "action ar pl \<lparr>getState = getSt, dispatch = disp\<rparr>
             (if onPending ar = None then w else disp (pending_action actionKey) w) =
           (Fulfilled result, w2)"
    and "w3 = (if onSuccess ar = None then w2 else disp (fulfilled_action actionKey result) w2)"
    and "d3 = (if onPending ar = None then [] else [pending_action actionKey]) @
              (if onSuccess ar = None then [] else [fulfilled_action actionKey result])"
  shows "thunk_body options actionKey ar pl disp getSt w =
     (if debug options \<and> \<not> serialisable (heap w3) result
      then catch_block actionKey ar disp TypeError w3 d3
      else \<lparr>outcome = Fulfilled result, world = w3, dispatched = d3\<rparr>)"
proof (cases "onPending ar")
  case None
  with assms show ?thesis
    by (cases "onSuccess ar") (auto simp: thunk_body_def)
next
  case (Some f)
  with assms show ?thesis
    by (cases "onSuccess ar") (auto simp: thunk_body_def)
qed

lemma thunk_body_unsettled:
  assumes "debug options \<longrightarrow> serialisable (heap w) pl \<and> serialisable (heap w) (getSt w)"
    and "action ar pl \<lparr>getState = getSt, dispatch = disp\<rparr>
             (if onPending ar = None then w else disp (pending_action actionKey) w) =
           (Unsettled, w2)"
  shows "thunk_body options actionKey ar pl disp getSt w =
     \<lparr>outcome = Unsettled, world = w2,
      dispatched = (if onPending ar = None then [] else [pending_action actionKey])\<rparr>"
  using assms by (cases "onPending ar") (auto simp: thunk_body_def)

lemma lifecycle_actions_differ:
  "pending_action k \<noteq> fulfilled_action k r"
  "pending_action k \<noteq> rejected_action k e"
  "fulfilled_action k r \<noteq> rejected_action k e"
  "type (pending_action k) = k @ ''/pending''"
  "type (fulfilled_action k r) = k @ ''/fulfilled''"
  "type (rejected_action k e) = k @ ''/rejected''"
  by (simp_all add: pending_action_def fulfilled_action_def rejected_action_def)

text \<open>
  The dispatches of one invocation: first the pending action, which is there when
  \<^verbatim>\<open>onPending\<close> is configured and the async function gets called; then terminal actions,
  each of type \<^verbatim>\<open><name>/fulfilled\<close> or \<^verbatim>\<open><name>/rejected\<close>.
\<close>

lemma thunk_body_dispatched:
  "\<exists>terminal.
     dispatched (thunk_body options actionKey ar pl disp getSt w) =
       (if onPending ar \<noteq> None
           \<and> (debug options \<longrightarrow> serialisable (heap w) pl \<and> serialisable (heap w) (getSt w))
        then [pending_action actionKey] else []) @ terminal
     \<and> list_all (terminal_type actionKey) terminal"
proof (cases "debug options \<longrightarrow> serialisable (heap w) pl \<and> serialisable (heap w) (getSt w)")
  case False
  then have "dispatched (thunk_body options actionKey ar pl disp getSt w) =
      (if onError ar = None then [] else [rejected_action actionKey TypeError])"
    by (auto simp: thunk_body_not_started catch_block_run)
  with False show ?thesis
    by (auto simp: terminal_type_def lifecycle_actions_differ)
next
  case started: True
  obtain r w2 where act:
    "action ar pl \<lparr>getState = getSt, dispatch = disp\<rparr>
       (if onPending ar = None then w else disp (pending_action actionKey) w) = (r, w2)"
    by (cases "action ar pl \<lparr>getState = getSt, dispatch = disp\<rparr>
       (if onPending ar = None then w else disp (pending_action actionKey) w)")
  show ?thesis
  proof (cases r)
    case (Fulfilled result)
    with act have resolved:
      "action ar pl \<lparr>getState = getSt, dispatch = disp\<rparr>
         (if onPending ar = None then w else disp (pending_action actionKey) w) =
       (Fulfilled result, w2)"
      by simp
    show ?thesis
      using started
      by (auto simp: thunk_body_resolved [OF started resolved refl refl] catch_block_run
          terminal_type_def lifecycle_actions_differ)
  next
    case (Rejected error)
    with act have thrown:
      "action ar pl \<lparr>getState = getSt, dispatch = disp\<rparr>
         (if onPending ar = None then w else disp (pending_action actionKey) w) =
       (Rejected error, w2)"
      by simp
    show ?thesis
      using started
      by (auto simp: thunk_body_rejected [OF started thrown] terminal_type_def
          lifecycle_actions_differ)
  next
    case Unsettled
    with act have hung:
      "action ar pl \<lparr>getState = getSt, dispatch = disp\<rparr>
         (if onPending ar = None then w else disp (pending_action actionKey) w) =
       (Unsettled, w2)"
      by simp
    show ?thesis
      using started by (auto simp: thunk_body_unsettled [OF started hung])
  qed
qed

lemma pending_before_terminal:
  assumes "ds = pre @ terminal" and "pre = [] \<or> pre = [pending_action k]"
    and "list_all (terminal_type k) terminal"
    and "i < length ds" and "j < length ds" and "ds ! i = pending_action k"
    and "terminal_type k (ds ! j)"
  shows "i < j"
proof -
  have not_terminal: "\<not> terminal_type k (pending_action k)"
    by (simp add: terminal_type_def lifecycle_actions_differ)
  have i_in_pre: "i < length pre"
  proof (rule ccontr)
    assume "\<not> i < length pre"
    with assms(1,4,6) have at: "terminal ! (i - length pre) = pending_action k"
      and less: "i - length pre < length terminal"
      by (simp_all add: nth_append)
    from assms(3) less have "terminal_type k (terminal ! (i - length pre))"
      by (simp add: list_all_length)
    with at not_terminal show False by simp
  qed
  have "\<not> j < length pre"
  proof
    assume "j < length pre"
    with assms(1,2) have "ds ! j = pending_action k"
      by (auto simp: nth_append)
    with assms(7) not_terminal show False by simp
  qed
  with i_in_pre show ?thesis by simp
qed

text \<open>
  C4. When the async function is called and throws \<open>error\<close>, the thunk ends by throwing
  that same \<open>error\<close> whether or not \<^verbatim>\<open>onError\<close> is configured, and it dispatches the
  rejected action, of type \<^verbatim>\<open><name>/rejected\<close> with payload \<^verbatim>\<open>{ error }\<close>, exactly when
  \<^verbatim>\<open>onError\<close> is configured. (The first hypothesis says that the async function is called:
  with \<^verbatim>\<open>debug\<close> on, the thunk serialises the payload and the state before it calls it.)
\<close>

theorem thunk_rethrows_error:
  assumes "debug options \<longrightarrow> serialisable (heap w) pl \<and> serialisable (heap w) (getSt w)"
    and "action ar pl \<lparr>getState = getSt, dispatch = disp\<rparr>
             (if onPending ar = None then w else disp (pending_action actionKey) w) =
           (Rejected error, w2)"
  shows "outcome (thunk_body options actionKey ar pl disp getSt w) = Rejected error
     \<and> (rejected_action actionKey error
           \<in> set (dispatched (thunk_body options actionKey ar pl disp getSt w)))
         = (onError ar \<noteq> None)
     \<and> world (thunk_body options actionKey ar pl disp getSt w) =
         (if onError ar = None then w2 else disp (rejected_action actionKey error) w2)
     \<and> type (rejected_action actionKey error) = actionKey @ ''/rejected''
     \<and> payload (rejected_action actionKey error) = Obj [(''error'', error)]"
proof -
  have "pending_action actionKey \<noteq> rejected_action actionKey error"
    by (rule lifecycle_actions_differ)
  then show ?thesis
    by (auto simp: thunk_body_rejected [OF assms] rejected_action_def)
qed

text \<open>The runs of the test suite, on the store that starts with the test state.\<close>

lemmas store_run =
  store_dispatch_def store_state_def test_store_def evaluate
  pending_action_def fulfilled_action_def rejected_action_def createAsyncAction_def
  test_heap_def

lemma test_store_serialisable:
  "serialisable (heap test_store) Undefined" "serialisable (heap test_store) (Num 5)"
  "serialisable (heap test_store) (Num 7)"
  "serialisable (heap test_store) (store_state test_store)"
  by (simp_all add: store_run)

lemma failing_run_pending:
  "store_dispatch (error_options\<lparr>debug := True\<rparr>) (pending_action ''failingAction'') test_store =
     \<lparr>heap =
        [[(''count'', Num 0), (''loading'', Bool False), (''error'', Null)],
         [(''count'', Num 0), (''loading'', Bool True), (''error'', Null)]],
      current = Ref 1\<rparr>"
  by (simp add: store_run error_options_def failingAction_def set_loading_def)

lemma failing_run_rejected:
  "store_dispatch (error_options\<lparr>debug := True\<rparr>) (rejected_action ''failingAction'' test_error)
     \<lparr>heap =
        [[(''count'', Num 0), (''loading'', Bool False), (''error'', Null)],
         [(''count'', Num 0), (''loading'', Bool True), (''error'', Null)]],
      current = Ref 1\<rparr> =
     \<lparr>heap =
        [[(''count'', Num 0), (''loading'', Bool False), (''error'', Null)],
         [(''count'', Num 0), (''loading'', Bool True), (''error'', Null)],
         [(''count'', Num 0), (''loading'', Bool False), (''error'', Str ''Test error'')]],
      current = Ref 2\<rparr>"
  by (simp add: store_run error_options_def failingAction_def record_error_def test_error_def)

theorem thunk_rethrows_error_witness:
  "outcome (thunk_body (error_options\<lparr>debug := True\<rparr>) ''failingAction'' failingAction Undefined
       (store_dispatch (error_options\<lparr>debug := True\<rparr>)) store_state test_store) =
     Rejected test_error
   \<and> rejected_action ''failingAction'' test_error
       \<in> set (dispatched (thunk_body (error_options\<lparr>debug := True\<rparr>) ''failingAction''
               failingAction Undefined (store_dispatch (error_options\<lparr>debug := True\<rparr>))
               store_state test_store))
   \<and> world (thunk_body (error_options\<lparr>debug := True\<rparr>) ''failingAction'' failingAction Undefined
       (store_dispatch (error_options\<lparr>debug := True\<rparr>)) store_state test_store) =
     \<lparr>heap =
        [[(''count'', Num 0), (''loading'', Bool False), (''error'', Null)],
         [(''count'', Num 0), (''loading'', Bool True), (''error'', Null)],
         [(''count'', Num 0), (''loading'', Bool False), (''error'', Str ''Test error'')]],
      current = Ref 2\<rparr>"
proof -
  let ?options = "error_options\<lparr>debug := True\<rparr> :: unit store_ext slice_options"
  let ?w1 = "\<lparr>heap =
        [[(''count'', Num 0), (''loading'', Bool False), (''error'', Null)],
         [(''count'', Num 0), (''loading'', Bool True), (''error'', Null)]],
      current = Ref 1\<rparr>"
  have started: "debug ?options \<longrightarrow>
      serialisable (heap test_store) Undefined
      \<and> serialisable (heap test_store) (store_state test_store)"
    by (simp add: test_store_serialisable)
  have throws:
    "action failingAction Undefined
       \<lparr>getState = store_state, dispatch = store_dispatch ?options\<rparr>
       (if onPending (failingAction :: unit store_ext async_action_reducer) = None
        then test_store
        else store_dispatch ?options (pending_action ''failingAction'') test_store) =
     (Rejected test_error, ?w1)"
    by (simp add: failingAction_def createAsyncAction_def failing_action_def failing_run_pending)
  have configured: "onError (failingAction :: unit store_ext async_action_reducer) \<noteq> None"
    by (simp add: failingAction_def createAsyncAction_def)
  from thunk_rethrows_error [OF started throws] configured failing_run_rejected show ?thesis
    by simp
qed


lemma async_run_pending:
  "store_dispatch (async_options\<lparr>debug := True\<rparr>)
     \<lparr>type = ''asyncIncrement/pending'', payload = Null\<rparr> test_store =
     \<lparr>heap =
        [[(''count'', Num 0), (''loading'', Bool False), (''error'', Null)],
         [(''count'', Num 0), (''loading'', Bool True), (''error'', Null)]],
      current = Ref 1\<rparr>"
  by (simp add: store_run async_options_def asyncIncrement_def set_loading_def)


lemma async_run_resolves:
  "action asyncIncrement (Num 5)
     \<lparr>getState = store_state, dispatch = store_dispatch (async_options\<lparr>debug := True\<rparr>)\<rparr>
     (if onPending (asyncIncrement :: unit store_ext async_action_reducer) = None
      then test_store
      else store_dispatch (async_options\<lparr>debug := True\<rparr>)
             \<lparr>type = ''asyncIncrement'' @ ''/pending'', payload = Null\<rparr> test_store) =
   (Fulfilled (Num 5),
    \<lparr>heap =
        [[(''count'', Num 0), (''loading'', Bool False), (''error'', Null)],
         [(''count'', Num 0), (''loading'', Bool True), (''error'', Null)]],
      current = Ref 1\<rparr>)"
  using async_run_pending
  by (simp add: asyncIncrement_def createAsyncAction_def async_increment_def)

lemma async_run_started:
  "debug (async_options\<lparr>debug := True\<rparr> :: unit store_ext slice_options) \<longrightarrow>
     serialisable (heap test_store) (Num 5)
     \<and> serialisable (heap test_store) (store_state test_store)"
  by (simp add: test_store_serialisable)



text \<open>
  C3 as stated fails, in two ways. \<^verbatim>\<open>ping\<close> has no \<^verbatim>\<open>onSuccess\<close>: its async function
  resolves with 7, the thunk returns 7 and dispatches nothing. And with \<^verbatim>\<open>debug\<close> on,
  \<^verbatim>\<open>countBig\<close> resolves with a \<^verbatim>\<open>BigInt\<close>: the thunk dispatches the fulfilled action, fails to
  serialise the result, dispatches the rejected action and throws the \<^verbatim>\<open>TypeError\<close>
  instead of returning the result.
\<close>

lemma bigint_not_serialisable: "\<not> serialisable h (BigInt n)"
  by (simp add: serialisable_def)


text \<open>
  C6, as the code has it. In the list \<open>ds\<close> of the dispatches of one invocation, every
  action is the pending action, \<^verbatim>\<open>{ type: <name>/pending, payload: null }\<close>, or of type
  \<^verbatim>\<open><name>/fulfilled\<close> or \<^verbatim>\<open><name>/rejected\<close>. When \<^verbatim>\<open>debug\<close> is off, or \<^verbatim>\<open>JSON.stringify\<close>
  succeeds on the payload and the current state as the thunk starts, the pending action
  occurs exactly when \<^verbatim>\<open>onPending\<close> is configured. Wherever it occurs, \<^verbatim>\<open>onPending\<close> is
  configured, it is the first dispatch, and it stands before every action of type
  \<^verbatim>\<open><name>/fulfilled\<close> or \<^verbatim>\<open><name>/rejected\<close> of the list.
\<close>

theorem thunk_pending_comes_first:
  assumes "ds = dispatched (thunk_body options actionKey ar pl disp getSt w)"
  shows "((debug options \<longrightarrow> serialisable (heap w) pl \<and> serialisable (heap w) (getSt w)) \<longrightarrow>
          (\<lparr>type = actionKey @ ''/pending'', payload = Null\<rparr> \<in> set ds) = (onPending ar \<noteq> None))
     \<and> (\<lparr>type = actionKey @ ''/pending'', payload = Null\<rparr> \<in> set ds \<longrightarrow>
          onPending ar \<noteq> None
          \<and> hd ds = \<lparr>type = actionKey @ ''/pending'', payload = Null\<rparr>)
     \<and> (\<forall>i j. i < length ds \<and> j < length ds
            \<and> ds ! i = \<lparr>type = actionKey @ ''/pending'', payload = Null\<rparr>
            \<and> (type (ds ! j) = actionKey @ ''/fulfilled''
                 \<or> type (ds ! j) = actionKey @ ''/rejected'')
          \<longrightarrow> i < j)
     \<and> list_all (\<lambda>x. x = \<lparr>type = actionKey @ ''/pending'', payload = Null\<rparr>
                      \<or> type x = actionKey @ ''/fulfilled''
                      \<or> type x = actionKey @ ''/rejected'') ds"
proof -
  let ?started = "debug options \<longrightarrow> serialisable (heap w) pl \<and> serialisable (heap w) (getSt w)"
  let ?pre = "if onPending ar \<noteq> None \<and> ?started then [pending_action actionKey] else []"
  have p: "\<lparr>type = actionKey @ ''/pending'', payload = Null\<rparr> = pending_action actionKey"
    by (simp add: pending_action_def)
  obtain terminal where shape: "ds = ?pre @ terminal"
    and terminal: "list_all (terminal_type actionKey) terminal"
    using thunk_body_dispatched [of options actionKey ar pl disp getSt w] assms by blast
  have pre: "?pre = [] \<or> ?pre = [pending_action actionKey]"
    by simp
  have not_terminal: "pending_action actionKey \<notin> set terminal"
  proof
    assume "pending_action actionKey \<in> set terminal"
    with terminal have "terminal_type actionKey (pending_action actionKey)"
      by (simp add: list_all_iff)
    then show False
      by (simp add: terminal_type_def lifecycle_actions_differ)
  qed
  have occurs: "?started \<longrightarrow> (pending_action actionKey \<in> set ds) = (onPending ar \<noteq> None)"
    using shape not_terminal by auto
  have first: "pending_action actionKey \<in> set ds \<longrightarrow>
      onPending ar \<noteq> None \<and> hd ds = pending_action actionKey"
    using shape not_terminal by (auto split: if_splits)
  have order: "\<forall>i j. i < length ds \<and> j < length ds \<and> ds ! i = pending_action actionKey
            \<and> (type (ds ! j) = actionKey @ ''/fulfilled''
                 \<or> type (ds ! j) = actionKey @ ''/rejected'')
          \<longrightarrow> i < j"
    using pending_before_terminal [OF shape pre terminal]
    by (auto simp: terminal_type_def)
  have kinds: "list_all (\<lambda>x. x = pending_action actionKey
                      \<or> type x = actionKey @ ''/fulfilled''
                      \<or> type x = actionKey @ ''/rejected'') ds"
    using terminal unfolding shape
    by (auto simp: list_all_iff terminal_type_def)
  from occurs first order kinds show ?thesis
    unfolding p by - (intro conjI, assumption+)
qed

theorem thunk_pending_comes_first_witness:
  "serialisable (heap test_store) (Num 5)
   \<and> serialisable (heap test_store) (store_state test_store)
   \<and> onPending (asyncIncrement :: unit store_ext async_action_reducer) \<noteq> None
   \<and> \<lparr>type = ''asyncIncrement/pending'', payload = Null\<rparr>
       \<in> set (dispatched (thunk_body (async_options\<lparr>debug := True\<rparr>) ''asyncIncrement''
               asyncIncrement (Num 5) (store_dispatch (async_options\<lparr>debug := True\<rparr>))
               store_state test_store))
   \<and> hd (dispatched (thunk_body (async_options\<lparr>debug := True\<rparr>) ''asyncIncrement''
          asyncIncrement (Num 5) (store_dispatch (async_options\<lparr>debug := True\<rparr>))
          store_state test_store)) =
       \<lparr>type = ''asyncIncrement/pending'', payload = Null\<rparr>
   \<and> dispatched (thunk_body (async_options\<lparr>debug := True\<rparr>) ''asyncIncrement''
        asyncIncrement (Num 5) (store_dispatch (async_options\<lparr>debug := True\<rparr>))
        store_state test_store) =
       [\<lparr>type = ''asyncIncrement/pending'', payload = Null\<rparr>,
        \<lparr>type = ''asyncIncrement/fulfilled'', payload = Num 5\<rparr>]
   \<and> onPending (ping :: unit store_ext async_action_reducer) = None
   \<and> \<lparr>type = ''ping/pending'', payload = Null\<rparr>
       \<notin> set (dispatched (thunk_body silent_options ''ping'' ping (Num 7)
               (store_dispatch silent_options) store_state test_store))"
proof -
  let ?options = "async_options\<lparr>debug := True\<rparr> :: unit store_ext slice_options"
  let ?ds = "dispatched (thunk_body ?options ''asyncIncrement'' asyncIncrement (Num 5)
               (store_dispatch ?options) store_state test_store)"
  let ?quiet = "dispatched (thunk_body silent_options ''ping'' ping (Num 7)
               (store_dispatch silent_options) store_state test_store)"
  have configured: "onPending (asyncIncrement :: unit store_ext async_action_reducer) \<noteq> None"
    "onSuccess (asyncIncrement :: unit store_ext async_action_reducer) \<noteq> None"
    by (simp_all add: asyncIncrement_def createAsyncAction_def)
  have silent: "onPending (ping :: unit store_ext async_action_reducer) = None"
    by (simp add: ping_def createAsyncAction_def)
  have off: "debug (silent_options :: unit store_ext slice_options) \<longrightarrow>
      serialisable (heap test_store) (Num 7)
      \<and> serialisable (heap test_store) (store_state test_store)"
    by (simp add: test_store_serialisable)
  have resolved: "action asyncIncrement (Num 5)
     \<lparr>getState = store_state, dispatch = store_dispatch ?options\<rparr>
     (if onPending (asyncIncrement :: unit store_ext async_action_reducer) = None
      then test_store
      else store_dispatch ?options (pending_action ''asyncIncrement'') test_store) =
   (Fulfilled (Num 5),
    \<lparr>heap =
        [[(''count'', Num 0), (''loading'', Bool False), (''error'', Null)],
         [(''count'', Num 0), (''loading'', Bool True), (''error'', Null)]],
      current = Ref 1\<rparr>)"
    using async_run_resolves by (auto simp: pending_action_def)
  have run: "?ds =
       [\<lparr>type = ''asyncIncrement/pending'', payload = Null\<rparr>,
        \<lparr>type = ''asyncIncrement/fulfilled'', payload = Num 5\<rparr>]"
    using thunk_body_resolved [OF async_run_started resolved refl refl] configured
    by (simp add: serialisable_def pending_action_def fulfilled_action_def)
  note occurs = thunk_pending_comes_first [OF refl, THEN conjunct1]
  note first = thunk_pending_comes_first [OF refl, THEN conjunct2, THEN conjunct1]
  from occurs [of ?options test_store "Num 5" store_state "''asyncIncrement''"
      asyncIncrement "store_dispatch ?options"]
    async_run_started configured(1)
  have loud: "\<lparr>type = ''asyncIncrement/pending'', payload = Null\<rparr> \<in> set ?ds"
    by simp
  from first [of "''asyncIncrement''" ?options asyncIncrement "Num 5"
      "store_dispatch ?options" store_state test_store] loud
  have head: "hd ?ds = \<lparr>type = ''asyncIncrement/pending'', payload = Null\<rparr>"
    by simp
  from occurs [of silent_options test_store "Num 7" store_state "''ping''" ping
      "store_dispatch silent_options"] off silent
  have mute: "\<lparr>type = ''ping/pending'', payload = Null\<rparr> \<notin> set ?quiet"
    by simp
  from test_store_serialisable(2,4) configured(1) loud head run silent mute show ?thesis
    by - (intro conjI, assumption+)
qed

text \<open>
  C6 as stated fails: with \<^verbatim>\<open>debug\<close> on and a \<^verbatim>\<open>BigInt\<close> as payload, the thunk of \<^verbatim>\<open>countBig\<close>,
  whose \<^verbatim>\<open>onPending\<close> is configured, fails to serialise the payload before the pending
  dispatch: it dispatches the rejected action only.
\<close>

theorem thunk_pending_skipped:
  "onPending (countBig :: unit store_ext async_action_reducer) \<noteq> None
   \<and> dispatched (thunk_body big_options ''countBig'' countBig (BigInt 1)
        (store_dispatch big_options) store_state test_store) =
     [\<lparr>type = ''countBig/rejected'', payload = Obj [(''error'', TypeError)]\<rparr>]
   \<and> \<lparr>type = ''countBig/pending'', payload = Null\<rparr>
       \<notin> set (dispatched (thunk_body big_options ''countBig'' countBig (BigInt 1)
               (store_dispatch big_options) store_state test_store))"
proof -
  have on: "debug (big_options :: unit store_ext slice_options)"
    by (simp add: big_options_def)
  have unserialisable: "\<not> (serialisable (heap test_store) (BigInt 1)
      \<and> serialisable (heap test_store) (store_state test_store))"
    by (simp add: bigint_not_serialisable)
  have configured: "onPending (countBig :: unit store_ext async_action_reducer) \<noteq> None"
    "onError (countBig :: unit store_ext async_action_reducer) \<noteq> None"
    by (simp_all add: countBig_def createAsyncAction_def)
  have "dispatched (thunk_body big_options ''countBig'' countBig (BigInt 1)
        (store_dispatch big_options) store_state test_store) =
     [\<lparr>type = ''countBig/rejected'', payload = Obj [(''error'', TypeError)]\<rparr>]"
    using configured(2)
      thunk_body_not_started [of big_options test_store "BigInt 1" store_state "''countBig''"
        countBig "store_dispatch big_options", OF on unserialisable]
    by (simp add: catch_block_run rejected_action_def)
  with configured(1) show ?thesis by simp
qed

end
